theory Spec2Isabelle
  imports Main "HOL-Library.Product_Lexorder"
begin

section \<open>Data model of \<^verbatim>\<open>src/src/App.jsx\<close>\<close>

text \<open>
  The two roles of the application (\<^verbatim>\<open>'Teacher'\<close>, \<^verbatim>\<open>'Student'\<close>). The state variables
  \<^verbatim>\<open>userRole\<close> and \<^verbatim>\<open>targetRole\<close> hold a role or \<^verbatim>\<open>null\<close>, modelled as \<open>role option\<close>.
\<close>

datatype role = Teacher | Student

text \<open>
  The \<^verbatim>\<open>date\<close> field of an event is the string \<^verbatim>\<open>'YYYY-MM-DD'\<close> of an HTML date input
  (and of the seed data). It is represented by its three numbers: year, month (1 to 12)
  and day of the month. Two such strings are equal exactly when the triples are, and
  \<^verbatim>\<open>new Date(a.date) - new Date(b.date)\<close>, the difference of the two UTC midnights, has
  the sign of the lexicographic comparison of the triples (for dates of the calendar).
\<close>

type_synonym isodate = "nat \<times> nat \<times> nat"

text \<open>
  An event as the application holds it in memory: the seed objects of \<^verbatim>\<open>MOCK_EVENTS\<close>
  and the objects \<^verbatim>\<open>{ id: doc.id, ...doc.data() }\<close> built from a snapshot. The seed
  objects have no \<^verbatim>\<open>createdAt\<close> and \<^verbatim>\<open>createdBy\<close>.
\<close>

record event =
  id_ev :: string
  title :: string
  date :: isodate
  description :: string
  category :: string
  createdAt :: "string option"
  createdBy :: "role option"

definition MOCK_EVENTS :: "event list" where
  "MOCK_EVENTS =
    [\<lparr>id_ev = ''1'', title = ''Sports Day'', date = (2025, 10, 15),
      description = ''Annual sports meet with various competitions like relay, sprints, and long jump.'',
      category = ''Sports'', createdAt = None, createdBy = None\<rparr>,
     \<lparr>id_ev = ''2'', title = ''Essay Writing Competition'', date = (2025, 11, 5),
      description = ''A creative writing competition for all grades. Topic: The Future of AI.'',
      category = ''Academic'', createdAt = None, createdBy = None\<rparr>,
     \<lparr>id_ev = ''3'', title = ''Model United Nations (MUN)'', date = (2025, 11, 20),
      description = ''Simulating UN procedures, focused on debate and diplomacy.'',
      category = ''Club'', createdAt = None, createdBy = None\<rparr>,
     \<lparr>id_ev = ''4'', title = ''Photography Contest'', date = (2025, 12, 1),
      description = ''Capture moments around the campus. Theme: Everyday Heroes.'',
      category = ''Art'', createdAt = None, createdBy = None\<rparr>,
     \<lparr>id_ev = ''5'', title = ''Talent Hunt'', date = (2025, 12, 15),
      description = ''Showcase your skills in singing, dancing, or stand-up comedy.'',
      category = ''Culture'', createdAt = None, createdBy = None\<rparr>]"

section \<open>The events listener: merging seed and fetched events\<close>

text \<open>
  \<^verbatim>\<open>[...MOCK_EVENTS.filter(m => !fetchedEvents.some(f => f.title === m.title)), ...fetchedEvents]\<close>
\<close>

definition mergedEvents :: "event list \<Rightarrow> event list" where
  "mergedEvents fetchedEvents =
     filter (\<lambda>m. \<not> list_ex (\<lambda>f. title f = title m) fetchedEvents) MOCK_EVENTS @ fetchedEvents"

text \<open>The entries of a list that carry a given title, in the order of the list.\<close>

definition titled :: "string \<Rightarrow> event list \<Rightarrow> event list" where
  "titled t es = filter (\<lambda>e. title e = t) es"

text \<open>Two fetched events that a teacher published under the title of a seed event.\<close>

definition liveSportsDayA :: event where
  "liveSportsDayA =
     \<lparr>id_ev = ''docA'', title = ''Sports Day'', date = (2025, 10, 16),
      description = ''Moved by one day.'', category = ''Sports'',
      createdAt = Some ''2025-10-01T08:00:00.000Z'', createdBy = Some Teacher\<rparr>"

definition liveSportsDayB :: event where
  "liveSportsDayB =
     \<lparr>id_ev = ''docB'', title = ''Sports Day'', date = (2025, 10, 17),
      description = ''Second day.'', category = ''Sports'',
      createdAt = Some ''2025-10-01T09:00:00.000Z'', createdBy = Some Teacher\<rparr>"


section \<open>The retry wrapper\<close>

text \<open>
  \<^verbatim>\<open>withRetry(fn, maxRetries = 3)\<close>. The operation \<open>fn\<close> acts on the outside world
  \<open>'s\<close> and either resolves with a value (\<open>Inr\<close>) or rejects with an error (\<open>Inl\<close>).
  The wrapper returns the value, throws the error of the last attempt, or, when the loop
  body never runs, falls off the end and returns \<^verbatim>\<open>undefined\<close>.

  What the wrapper does besides returning is recorded in a trace: each call of
  \<open>fn\<close> and each \<^verbatim>\<open>setTimeout(resolve, delay)\<close> with the value of \<^verbatim>\<open>delay\<close>
  (\<^verbatim>\<open>Math.pow(2, i) * 1000\<close>, exact in floating point for every \<open>i\<close> below 1000).
\<close>

datatype ('e, 'a) outcome = Returned 'a | Thrown 'e | ReturnedUndefined

datatype effect = Invoked | Delayed nat

function withRetry_loop ::
  "('s \<Rightarrow> ('e + 'a) \<times> 's) \<Rightarrow> nat \<Rightarrow> nat \<Rightarrow> 's \<Rightarrow> effect list
     \<Rightarrow> ('e, 'a) outcome \<times> 's \<times> effect list" where
  "withRetry_loop fn maxRetries i s tr =
     (if i < maxRetries then
        (case fn s of
           (Inr v, s') \<Rightarrow> (Returned v, s', tr @ [Invoked])
         | (Inl err, s') \<Rightarrow>
             (if i = maxRetries - 1 then (Thrown err, s', tr @ [Invoked])
              else withRetry_loop fn maxRetries (i + 1) s'
                     (tr @ [Invoked, Delayed (2 ^ i * 1000)])))
      else (ReturnedUndefined, s, tr))"
  by pat_completeness auto
termination
  by (relation "measure (\<lambda>(fn, maxRetries, i, s, tr). maxRetries - i)") auto

declare withRetry_loop.simps [simp del]

definition withRetry ::
  "('s \<Rightarrow> ('e + 'a) \<times> 's) \<Rightarrow> nat \<Rightarrow> 's \<Rightarrow> ('e, 'a) outcome \<times> 's \<times> effect list" where
  "withRetry fn maxRetries s = withRetry_loop fn maxRetries 0 s []"

text \<open>
  An operation that fails on every attempt, each time with a different error: the world
  is a counter of the calls made so far, and the error names the call.
\<close>

definition alwaysFailing :: "nat \<Rightarrow> (nat + unit) \<times> nat" where
  "alwaysFailing n = (Inl n, Suc n)"

section \<open>Notices and score publications\<close>

record notice =
  id_no :: string
  content :: string
  createdAt_no :: string
  createdBy_no :: "string option"

record result_entry =
  studentId :: string
  studentName :: string
  score :: string
  rank :: string

text \<open>The \<^verbatim>\<open>scorePayload\<close> object written by \<^verbatim>\<open>AddScoresView\<close>.\<close>

record score_payload =
  eventId :: string
  eventTitle :: string
  results :: "result_entry list"
  publishedAt :: string
  teacherId :: "string option"

text \<open>
  A document of the scores collection: its key and its fields. The in-memory object
  \<^verbatim>\<open>{ id: doc.id, ...doc.data() }\<close> of the scores listener is the same pair.
\<close>

type_synonym score_publication = "string \<times> score_payload"

section \<open>The document store, as far as the score writes use it\<close>

text \<open>
  The store is the external Firestore service. Its scores collection is a list of
  documents in which no key occurs twice. \<^verbatim>\<open>setDoc(docRef, data)\<close> replaces the
  document under the key of \<open>docRef\<close> or creates it. A request may fail: \<open>faults\<close>
  scripts the fate of the coming requests (\<open>Some err\<close>: the request is rejected with
  \<open>err\<close> and writes nothing; \<open>None\<close>, or no entry left: it succeeds).
\<close>

record firestore =
  scoresCollection :: "score_publication list"
  faults :: "string option list"

fun setDoc_docs :: "string \<Rightarrow> 'v \<Rightarrow> (string \<times> 'v) list \<Rightarrow> (string \<times> 'v) list" where
  "setDoc_docs k v [] = [(k, v)]"
| "setDoc_docs k v ((k', v') # kvs) =
     (if k' = k then (k, v) # kvs else (k', v') # setDoc_docs k v kvs)"

definition setDoc :: "string \<Rightarrow> score_payload \<Rightarrow> firestore \<Rightarrow> (string + unit) \<times> firestore" where
  "setDoc k v fs =
     (case faults fs of
        Some err # rest \<Rightarrow> (Inl err, fs\<lparr>faults := rest\<rparr>)
      | None # rest \<Rightarrow>
          (Inr (), fs\<lparr>scoresCollection := setDoc_docs k v (scoresCollection fs), faults := rest\<rparr>)
      | [] \<Rightarrow> (Inr (), fs\<lparr>scoresCollection := setDoc_docs k v (scoresCollection fs)\<rparr>))"

text \<open>The documents stored under a key.\<close>

definition docsAt :: "string \<Rightarrow> (string \<times> 'v) list \<Rightarrow> 'v list" where
  "docsAt k kvs = map snd (filter (\<lambda>kv. fst kv = k) kvs)"

text \<open>Whether a request retried up to \<open>n\<close> times in all gets through the scripted faults.\<close>

fun succeedsWithin :: "nat \<Rightarrow> string option list \<Rightarrow> bool" where
  "succeedsWithin 0 fl = False"
| "succeedsWithin (Suc n) [] = True"
| "succeedsWithin (Suc n) (None # fl) = True"
| "succeedsWithin (Suc n) (Some err # fl) = succeedsWithin n fl"

text \<open>The scripted faults left after a request that got through.\<close>

fun faultsAfter :: "string option list \<Rightarrow> string option list" where
  "faultsAfter [] = []"
| "faultsAfter (None # fl) = fl"
| "faultsAfter (Some err # fl) = faultsAfter fl"

section \<open>Publishing scores (\<^verbatim>\<open>AddScoresView\<close>)\<close>

text \<open>The local state of the form.\<close>

record add_scores_form =
  selectedEventId :: string
  scoreData :: "result_entry list"
  loading :: bool
  message :: string

text \<open>
  \<^verbatim>\<open>handleSubmit\<close> of \<^verbatim>\<open>AddScoresView\<close>. \<open>evs\<close> is the \<^verbatim>\<open>events\<close> prop, \<open>uid\<close> the
  \<^verbatim>\<open>userId\<close> prop and \<open>now\<close> the value of \<^verbatim>\<open>new Date().toISOString()\<close>. A string is
  falsy exactly when it is empty.
\<close>

definition handleSubmit_scores ::
  "event list \<Rightarrow> string option \<Rightarrow> string \<Rightarrow> add_scores_form \<Rightarrow> firestore
     \<Rightarrow> add_scores_form \<times> firestore" where
  "handleSubmit_scores evs uid now form fs =
     (if selectedEventId form = [] then (form, fs)
      else
        let eventTitle =
              (case find (\<lambda>e. id_ev e = selectedEventId form) evs of
                 Some e \<Rightarrow> if title e = [] then ''Unknown Event'' else title e
               | None \<Rightarrow> ''Unknown Event'');
            validScores = filter (\<lambda>s. score s \<noteq> [] \<or> rank s \<noteq> []) (scoreData form);
            scorePayload = \<lparr>eventId = selectedEventId form, eventTitle = eventTitle,
                            results = validScores, publishedAt = now, teacherId = uid\<rparr>
        in (case withRetry (setDoc (selectedEventId form) scorePayload) 3 fs of
              (Returned u, fs', tr) \<Rightarrow>
                (form\<lparr>message := ''Scores successfully published/updated!'',
                       selectedEventId := [], scoreData := [], loading := False\<rparr>, fs')
            | (Thrown err, fs', tr) \<Rightarrow>
                (form\<lparr>message := ''Failed to publish scores. Please try again.'',
                       loading := False\<rparr>, fs')
            | (ReturnedUndefined, fs', tr) \<Rightarrow>
                (form\<lparr>message := ''Scores successfully published/updated!'',
                       selectedEventId := [], scoreData := [], loading := False\<rparr>, fs')))"

text \<open>The form after an event was chosen: one empty row per student of \<^verbatim>\<open>mockStudents\<close>.\<close>

definition initialScores :: "result_entry list" where
  "initialScores =
     [\<lparr>studentId = ''student-A'', studentName = ''Alfie B.'', score = [], rank = []\<rparr>,
      \<lparr>studentId = ''student-B'', studentName = ''Betty C.'', score = [], rank = []\<rparr>,
      \<lparr>studentId = ''student-C'', studentName = ''Charlie D.'', score = [], rank = []\<rparr>,
      \<lparr>studentId = ''student-D'', studentName = ''Dana E.'', score = [], rank = []\<rparr>]"

text \<open>\<^verbatim>\<open>handleScoreChange\<close> for the fields \<^verbatim>\<open>score\<close> and \<^verbatim>\<open>rank\<close>.\<close>

definition handleScoreChange_score :: "string \<Rightarrow> string \<Rightarrow> result_entry list \<Rightarrow> result_entry list" where
  "handleScoreChange_score sid v prev = map (\<lambda>s. if studentId s = sid then s\<lparr>score := v\<rparr> else s) prev"

definition handleScoreChange_rank :: "string \<Rightarrow> string \<Rightarrow> result_entry list \<Rightarrow> result_entry list" where
  "handleScoreChange_rank sid v prev = map (\<lambda>s. if studentId s = sid then s\<lparr>rank := v\<rparr> else s) prev"

section \<open>The application state and its views\<close>

text \<open>The view names that \<^verbatim>\<open>setView\<close> is called with.\<close>

datatype view =
    InitialRoleChoice | Login | TeacherDashboard | StudentDashboard | EventCalendar
  | EventDetails | AddEvent | AddScores | ViewResults | NoticeBoard | StudentProfile

text \<open>
  The state variables of \<^verbatim>\<open>App\<close>. \<open>db\<close> tells whether the store handle is set
  (non-null); \<open>userId\<close>, \<open>selectedEvent\<close> and \<open>error\<close> are \<open>None\<close> when \<^verbatim>\<open>null\<close>.
\<close>

record app_state =
  db :: bool
  isAuthReady :: bool
  userRole :: "role option"
  targetRole :: "role option"
  userId :: "string option"
  view :: view
  selectedEvent :: "event list option"
  events :: "event list"
  notices :: "notice list"
  scores :: "score_publication list"
  error :: "string option"

definition initialState :: app_state where
  "initialState =
     \<lparr>db = False, isAuthReady = False, userRole = None, targetRole = None, userId = None,
      view = InitialRoleChoice, selectedEvent = None, events = MOCK_EVENTS, notices = [],
      scores = [], error = None\<rparr>"

text \<open>A string-or-null value is truthy when it is a non-empty string.\<close>

fun truthy :: "string option \<Rightarrow> bool" where
  "truthy None = False"
| "truthy (Some str) = (str \<noteq> [])"

text \<open>
  What \<^verbatim>\<open>renderView\<close> returns: the error paragraph, the loading spinner, one of the view
  components with the collections and values passed as props, or one of the two
  placeholder paragraphs.
\<close>

datatype element =
    ErrorMessage string
  | LoadingSchoolLink
  | InitialRoleChoiceView
  | LoginView "role option"
  | TeacherDashboardCard
  | StudentDashboardCard
  | EventCalendarView "event list" "role option"
  | EventDetailsView "event list" "role option"
  | AddEventView "role option"
  | AddScoresView "event list" "string option"
  | AccessDenied
  | ViewResultsView "role option" "score_publication list" "event list"
  | NoticeBoardView "notice list" "role option" "string option"
  | LoadingNotices
  | StudentProfileView "string option"

definition renderView :: "app_state \<Rightarrow> element" where
  "renderView st =
     (if truthy (error st) then ErrorMessage (the (error st))
      else if \<not> isAuthReady st then LoadingSchoolLink
      else (case view st of
          InitialRoleChoice \<Rightarrow> InitialRoleChoiceView
        | Login \<Rightarrow> LoginView (targetRole st)
        | TeacherDashboard \<Rightarrow> TeacherDashboardCard
        | StudentDashboard \<Rightarrow> StudentDashboardCard
        | EventCalendar \<Rightarrow> EventCalendarView (events st) (userRole st)
        | EventDetails \<Rightarrow>
            EventDetailsView (case selectedEvent st of Some sel \<Rightarrow> sel | None \<Rightarrow> events st)
              (userRole st)
        | AddEvent \<Rightarrow>
            (if userRole st = Some Teacher \<and> db st then AddEventView (userRole st)
             else AccessDenied)
        | AddScores \<Rightarrow>
            (if userRole st = Some Teacher \<and> db st then AddScoresView (events st) (userId st)
             else AccessDenied)
        | ViewResults \<Rightarrow> ViewResultsView (userRole st) (scores st) (events st)
        | NoticeBoard \<Rightarrow>
            (if db st then NoticeBoardView (notices st) (userRole st) (userId st)
             else LoadingNotices)
        | StudentProfile \<Rightarrow> StudentProfileView (userId st)))"

section \<open>Navigation, login and logout\<close>

definition setView :: "view \<Rightarrow> app_state \<Rightarrow> app_state" where
  "setView v st = st\<lparr>view := v\<rparr>"

definition handleRoleSelect :: "role \<Rightarrow> app_state \<Rightarrow> app_state" where
  "handleRoleSelect r st = setView Login (st\<lparr>targetRole := Some r\<rparr>)"

definition handleLogin :: "role \<Rightarrow> app_state \<Rightarrow> app_state" where
  "handleLogin r st =
     setView (if r = Teacher then TeacherDashboard else StudentDashboard)
       (st\<lparr>userRole := Some r, targetRole := None\<rparr>)"




section \<open>The login form\<close>

record credentials =
  username :: string
  password :: string

fun MOCK_CREDENTIALS :: "role \<Rightarrow> credentials" where
  "MOCK_CREDENTIALS Teacher = \<lparr>username = ''teacher'', password = ''pass''\<rparr>"
| "MOCK_CREDENTIALS Student = \<lparr>username = ''student'', password = ''pass''\<rparr>"

text \<open>
  Strings are taken over the code units below 256. There \<^verbatim>\<open>trim\<close> removes, at both
  ends, the code units 9 to 13, 32 and 160, and \<^verbatim>\<open>toLowerCase\<close> maps A to Z and the
  capital letters of Latin-1 (192 to 222 without the multiplication sign 215) to the
  code unit 32 above.
\<close>

definition isWhiteSpace :: "char \<Rightarrow> bool" where
  "isWhiteSpace c = (let n = (of_char c :: nat) in (9 \<le> n \<and> n \<le> 13) \<or> n = 32 \<or> n = 160)"

definition trim :: "string \<Rightarrow> string" where
  "trim str = rev (dropWhile isWhiteSpace (rev (dropWhile isWhiteSpace str)))"

definition toLowerCase_char :: "char \<Rightarrow> char" where
  "toLowerCase_char c =
     (let n = (of_char c :: nat) in
      if (65 \<le> n \<and> n \<le> 90) \<or> (192 \<le> n \<and> n \<le> 222 \<and> n \<noteq> 215) then char_of (n + 32) else c)"

definition toLowerCase :: "string \<Rightarrow> string" where
  "toLowerCase str = map toLowerCase_char str"

text \<open>The local state of \<^verbatim>\<open>LoginView\<close>: the two inputs and the inline error message.\<close>

record login_form =
  username_input :: string
  password_input :: string
  error_login :: string
  loading_login :: bool

text \<open>
  \<^verbatim>\<open>handleSubmit\<close> of \<^verbatim>\<open>LoginView\<close>, with \<^verbatim>\<open>onLogin = handleLogin\<close> as \<^verbatim>\<open>renderView\<close>
  passes it.
\<close>

definition handleSubmit_login ::
  "role \<Rightarrow> login_form \<Rightarrow> app_state \<Rightarrow> login_form \<times> app_state" where
  "handleSubmit_login target form st =
     (let inputUsername = toLowerCase (trim (username_input form));
          inputPassword = trim (password_input form);
          expected = MOCK_CREDENTIALS target
      in if inputUsername = username expected \<and> inputPassword = password expected
         then (form\<lparr>error_login := [], loading_login := False\<rparr>, handleLogin target st)
         else (form\<lparr>error_login := ''Invalid credentials. Please try again.'',
                     loading_login := False\<rparr>, st))"

section \<open>The authentication observer\<close>

text \<open>
  The identity provider is external: whether \<^verbatim>\<open>signInWithCustomToken\<close> and
  \<^verbatim>\<open>signInAnonymously\<close> resolve (\<open>None\<close>) or reject with an error (\<open>Some err\<close>) is given.
\<close>

record identity_provider =
  signInWithCustomToken :: "string \<Rightarrow> string option"
  signInAnonymously :: "string option"

text \<open>
  The callback passed to \<^verbatim>\<open>onAuthStateChanged\<close>, run with the user's \<^verbatim>\<open>uid\<close> or with
  \<^verbatim>\<open>null\<close>. An awaited sign-in that rejects throws inside the asynchronous callback, whose
  remaining statements do not run; the first component of the result is that error.
\<close>

definition authObserver ::
  "identity_provider \<Rightarrow> string option \<Rightarrow> string option \<Rightarrow> app_state
     \<Rightarrow> string option \<times> app_state" where
  "authObserver idp initialAuthToken user st =
     (case user of
        Some uid \<Rightarrow> (None, st\<lparr>userId := Some uid, isAuthReady := True\<rparr>)
      | None \<Rightarrow>
          (if truthy initialAuthToken then
             (case signInWithCustomToken idp (the initialAuthToken) of
                Some err \<Rightarrow> (Some err, st)
              | None \<Rightarrow> (None, st\<lparr>isAuthReady := True\<rparr>))
           else
             (case signInAnonymously idp of
                Some err \<Rightarrow> (Some err, st)
              | None \<Rightarrow> (None, st\<lparr>isAuthReady := True\<rparr>))))"

text \<open>The initialisation effect up to the registration of the observer.\<close>

definition initializeFirebase :: "app_state \<Rightarrow> app_state" where
  "initializeFirebase st = st\<lparr>db := True\<rparr>"

section \<open>The snapshot listeners\<close>

definition onEventsSnapshot :: "event list \<Rightarrow> app_state \<Rightarrow> app_state" where
  "onEventsSnapshot fetchedEvents st = st\<lparr>events := mergedEvents fetchedEvents\<rparr>"

definition onEventsError :: "app_state \<Rightarrow> app_state" where
  "onEventsError st = st\<lparr>error := Some ''Could not load events.''\<rparr>"

definition onNoticesSnapshot :: "notice list \<Rightarrow> app_state \<Rightarrow> app_state" where
  "onNoticesSnapshot fetchedNotices st = st\<lparr>notices := fetchedNotices\<rparr>"

definition onNoticesError :: "app_state \<Rightarrow> app_state" where
  "onNoticesError st = st\<lparr>error := Some ''Could not load notices.''\<rparr>"

definition onScoresSnapshot :: "score_publication list \<Rightarrow> app_state \<Rightarrow> app_state" where
  "onScoresSnapshot fetchedScores st = st\<lparr>scores := fetchedScores\<rparr>"

definition onScoresError :: "app_state \<Rightarrow> app_state" where
  "onScoresError st = st\<lparr>error := Some ''Could not load scores.''\<rparr>"

section \<open>The calendar and the event details\<close>

text \<open>
  \<^verbatim>\<open>new Date('YYYY-MM-DD')\<close> is midnight of that day in UTC, and \<^verbatim>\<open>getMonth()\<close> (0 to 11)
  and \<^verbatim>\<open>getFullYear()\<close> read it in the browser's time zone. \<open>utcOffset d\<close> is the offset
  of local time from UTC at that instant, in minutes, between 12 hours behind and 14 hours
  ahead: the local day is the day \<open>d\<close> when the offset is not negative, and the day
  before when it is, which changes the month exactly for the first day of a month.
\<close>

definition getMonth :: "(isodate \<Rightarrow> int) \<Rightarrow> isodate \<Rightarrow> nat" where
  "getMonth utcOffset d =
     (case d of (y, m, dd) \<Rightarrow>
        if utcOffset d < 0 \<and> dd = 1 then (if m = 1 then 11 else m - 2) else m - 1)"

definition getFullYear :: "(isodate \<Rightarrow> int) \<Rightarrow> isodate \<Rightarrow> nat" where
  "getFullYear utcOffset d =
     (case d of (y, m, dd) \<Rightarrow> if utcOffset d < 0 \<and> dd = 1 \<and> m = 1 then y - 1 else y)"

text \<open>
  \<^verbatim>\<open>goToDetails\<close> of \<^verbatim>\<open>EventCalendarView\<close>, for the displayed month \<open>currentMonth\<close>
  (0 to 11) of \<open>currentYear\<close>; the \<^verbatim>\<open>events\<close> prop is the cached collection.
\<close>

definition goToDetails :: "(isodate \<Rightarrow> int) \<Rightarrow> nat \<Rightarrow> nat \<Rightarrow> app_state \<Rightarrow> app_state" where
  "goToDetails utcOffset currentMonth currentYear st =
     setView EventDetails
       (st\<lparr>selectedEvent :=
             Some (filter (\<lambda>e. getMonth utcOffset (date e) = currentMonth
                              \<and> getFullYear utcOffset (date e) = currentYear) (events st))\<rparr>)"

text \<open>
  \<^verbatim>\<open>getEventsForDay\<close> of the same component compares the date string with
  \<^verbatim>\<open>`${currentYear}-${formatDay(currentMonth + 1)}-${formatDay(day)}`\<close>.
\<close>

definition getEventsForDay :: "nat \<Rightarrow> nat \<Rightarrow> event list \<Rightarrow> nat \<Rightarrow> nat" where
  "getEventsForDay currentMonth currentYear evs day =
     length (filter (\<lambda>e. date e = (currentYear, currentMonth + 1, day)) evs)"

text \<open>The events dated in a month (1 to 12) of a year.\<close>

definition datedIn :: "nat \<Rightarrow> nat \<Rightarrow> event list \<Rightarrow> event list" where
  "datedIn y m evs = filter (\<lambda>e. fst (date e) = y \<and> fst (snd (date e)) = m) evs"

text \<open>
  \<^verbatim>\<open>listToDisplay.sort((a, b) => new Date(a.date) - new Date(b.date))\<close>: the sort of the
  language is stable, so the result is the stable sort by date. It sorts the array in
  place and returns that same array.
\<close>

definition sortByDate :: "event list \<Rightarrow> event list" where
  "sortByDate evs = sort_key date evs"

text \<open>
  The \<^verbatim>\<open>reduce\<close> that groups by date. The object's keys are date strings, which are
  enumerated by \<^verbatim>\<open>Object.entries\<close> in the order of their insertion.
\<close>

fun pushGrouped :: "(isodate \<times> event list) list \<Rightarrow> event \<Rightarrow> (isodate \<times> event list) list" where
  "pushGrouped [] e = [(date e, [e])]"
| "pushGrouped ((k, es) # acc) e =
     (if k = date e then (k, es @ [e]) # acc else (k, es) # pushGrouped acc e)"

definition groupedEvents :: "event list \<Rightarrow> (isodate \<times> event list) list" where
  "groupedEvents sortedEvents = foldl pushGrouped [] sortedEvents"

text \<open>
  The body of \<^verbatim>\<open>EventDetailsView\<close> for the array passed as \<^verbatim>\<open>events\<close>: the groups it
  displays, and the contents of that array afterwards.
\<close>

definition EventDetailsView_body :: "event list \<Rightarrow> (isodate \<times> event list) list \<times> event list" where
  "EventDetailsView_body evs = (groupedEvents (sortByDate evs), sortByDate evs)"

text \<open>
  The state after React has rendered the element of \<^verbatim>\<open>renderView\<close>. The array that
  \<^verbatim>\<open>EventDetailsView\<close> sorts is the one \<^verbatim>\<open>selectedEvent || events\<close> evaluates to: the
  payload when there is one (an array, also an empty one, is truthy), the cached
  collection otherwise. The payload is a fresh array made by \<^verbatim>\<open>filter\<close>, and the cached
  collection is \<^verbatim>\<open>MOCK_EVENTS\<close> itself only before the first snapshot.
\<close>

definition afterRender :: "app_state \<Rightarrow> app_state" where
  "afterRender st =
     (case renderView st of
        EventDetailsView evs r \<Rightarrow>
          (case selectedEvent st of
             Some sel \<Rightarrow> st\<lparr>selectedEvent := Some (snd (EventDetailsView_body sel))\<rparr>
           | None \<Rightarrow> st\<lparr>events := snd (EventDetailsView_body (events st))\<rparr>)
      | _ \<Rightarrow> st)"

section \<open>Concrete inputs\<close>

text \<open>
  A store whose first request fails, and two submissions of the form for the seed event
  with id 1: first a score for one student, then a rank for another.
\<close>

definition store0 :: firestore where
  "store0 = \<lparr>scoresCollection = [], faults = [Some ''unavailable'']\<rparr>"

definition publishForm1 :: add_scores_form where
  "publishForm1 = \<lparr>selectedEventId = ''1'',
     scoreData = handleScoreChange_score ''student-A'' ''9.5s'' initialScores,
     loading = False, message = []\<rparr>"

definition publishForm2 :: add_scores_form where
  "publishForm2 = \<lparr>selectedEventId = ''1'',
     scoreData = handleScoreChange_rank ''student-B'' ''1st'' initialScores,
     loading = False, message = []\<rparr>"

definition store1 :: firestore where
  "store1 = snd (handleSubmit_scores MOCK_EVENTS (Some ''uid-1'') ''2025-10-15T10:00:00.000Z''
                   publishForm1 store0)"

definition store2 :: firestore where
  "store2 = snd (handleSubmit_scores MOCK_EVENTS (Some ''uid-1'') ''2025-10-15T11:00:00.000Z''
                   publishForm2 store1)"

text \<open>An identity provider whose sign-in requests fail, and one where they succeed.\<close>

definition offline :: identity_provider where
  "offline = \<lparr>signInWithCustomToken = (\<lambda>token. Some ''auth/network-request-failed''),
              signInAnonymously = Some ''auth/network-request-failed''\<rparr>"

definition online :: identity_provider where
  "online = \<lparr>signInWithCustomToken = (\<lambda>token. None), signInAnonymously = None\<rparr>"

text \<open>
  The application once the session is ready: the observer ran without a user, signed in
  anonymously, and ran again with the user. Then a role was chosen on the first screen.
  A login with untidy but right credentials, and one with the password in capitals.
\<close>

definition readyState :: app_state where
  "readyState =
     snd (authObserver online None (Some ''uid-1'')
            (snd (authObserver online None None (initializeFirebase initialState))))"

definition atLogin :: "role \<Rightarrow> app_state" where
  "atLogin r = handleRoleSelect r readyState"

definition loginGood :: login_form where
  "loginGood = \<lparr>username_input = ''  TeAcHeR  '', password_input = '' pass '',
                 error_login = [], loading_login = False\<rparr>"

definition loginBad :: login_form where
  "loginBad = \<lparr>username_input = ''teacher'', password_input = ''PASS'',
                error_login = [], loading_login = False\<rparr>"

text \<open>A student and a teacher after a successful login.\<close>

definition studentAtDashboard :: app_state where
  "studentAtDashboard = handleLogin Student (atLogin Student)"

definition teacherAtDashboard :: app_state where
  "teacherAtDashboard = handleLogin Teacher (atLogin Teacher)"


definition newYork :: "isodate \<Rightarrow> int" where
  "newYork d = - 300"


text \<open>A student reading the notice board after one notice was fetched.\<close>

definition notice1 :: notice where
  "notice1 = \<lparr>id_no = ''n1'', content = ''School closes at noon on Friday.'',
               createdAt_no = ''2025-10-10T07:30:00.000Z'', createdBy_no = Some ''uid-1''\<rparr>"

definition studentAtNotices :: app_state where
  "studentAtNotices = setView NoticeBoard (onNoticesSnapshot [notice1] studentAtDashboard)"

text \<open>A student looking at the calendar before any snapshot has arrived.\<close>

definition studentAtCalendar :: app_state where
  "studentAtCalendar = setView EventCalendar studentAtDashboard"

text \<open>
  A fetched event dated before every seed event, and the details view on the cached
  collection (no payload) after the snapshot that delivered it.
\<close>

definition orientation :: event where
  "orientation =
     \<lparr>id_ev = ''docC'', title = ''Orientation'', date = (2025, 9, 1),
      description = ''Welcome morning for new students.'', category = ''Other'',
      createdAt = Some ''2025-08-20T08:00:00.000Z'', createdBy = Some Teacher\<rparr>"

definition directDetails :: app_state where
  "directDetails = setView EventDetails (onEventsSnapshot [orientation] studentAtDashboard)"

section \<open>The result modal of \<^verbatim>\<open>ViewResultsView\<close>\<close>

text \<open>
  \<^verbatim>\<open>score.results.sort((a, b) => (a.rank || '').localeCompare(b.rank || '', undefined,
  { numeric: true, sensitivity: 'base' }))\<close>. The collation is the platform's and is
  taken as the parameter \<open>localeCompare\<close>, whose result is negative, zero or positive.
  The sort is stable and in place: it is the insertion, from the right, of each element
  before the first element it does not come after.
\<close>

fun insortBy :: "('a \<Rightarrow> 'a \<Rightarrow> int) \<Rightarrow> 'a \<Rightarrow> 'a list \<Rightarrow> 'a list" where
  "insortBy cmp x [] = [x]"
| "insortBy cmp x (y # ys) = (if cmp x y \<le> 0 then x # y # ys else y # insortBy cmp x ys)"

definition sortBy :: "('a \<Rightarrow> 'a \<Rightarrow> int) \<Rightarrow> 'a list \<Rightarrow> 'a list" where
  "sortBy cmp xs = foldr (insortBy cmp) xs []"

definition ResultModal_body :: "(string \<Rightarrow> string \<Rightarrow> int) \<Rightarrow> score_payload \<Rightarrow> score_payload" where
  "ResultModal_body localeCompare sc =
     sc\<lparr>results := sortBy (\<lambda>a b. localeCompare (rank a) (rank b)) (results sc)\<rparr>"

text \<open>
  The state after the modal was rendered for the publication clicked in the list, entry
  \<open>i\<close> of the cached scores: \<^verbatim>\<open>sortedScores\<close> is a copy of the array, with the same
  objects in it, and \<^verbatim>\<open>selectedScore\<close> is one of them.
\<close>

definition afterRender_ResultModal :: "(string \<Rightarrow> string \<Rightarrow> int) \<Rightarrow> nat \<Rightarrow> app_state \<Rightarrow> app_state" where
  "afterRender_ResultModal localeCompare i st =
     (case renderView st of
        ViewResultsView r scs evs \<Rightarrow>
          (if i < length (scores st)
           then st\<lparr>scores := (scores st)
                  [i := (fst (scores st ! i), ResultModal_body localeCompare (snd (scores st ! i)))]\<rparr>
           else st)
      | _ \<Rightarrow> st)"

text \<open>
  A publication as the form stores it, its rows in the order of the student list, and a
  student looking at the results after the snapshot that delivered it.
\<close>

definition sportsDayScores :: score_publication where
  "sportsDayScores =
     (''1'', \<lparr>eventId = ''1'', eventTitle = ''Sports Day'',
        results = [\<lparr>studentId = ''student-A'', studentName = ''Alfie B.'', score = ''10.1s'', rank = ''2nd''\<rparr>,
                   \<lparr>studentId = ''student-B'', studentName = ''Betty C.'', score = ''9.5s'', rank = ''1st''\<rparr>],
        publishedAt = ''2025-10-15T12:00:00.000Z'', teacherId = Some ''uid-1''\<rparr>)"

definition studentAtResults :: app_state where
  "studentAtResults = setView ViewResults (onScoresSnapshot [sportsDayScores] studentAtDashboard)"

section \<open>Properties of the merge\<close>

lemma titled_append: "titled t (xs @ ys) = titled t xs @ titled t ys"
  by (simp add: titled_def)

lemma titled_seed_suppressed:
  "t \<in> title ` set fetched \<Longrightarrow>
   titled t (filter (\<lambda>m. \<not> list_ex (\<lambda>f. title f = title m) fetched) seed) = []"
  by (auto simp: titled_def list_ex_iff filter_empty_conv)

text \<open>
  C1 (as stated, refuted). The claim promises exactly one entry with the shared title.
  The fetched snapshot below holds two documents titled "Sports Day" (the store makes
  ids unique, not titles); the merge keeps both.
\<close>

theorem C1_two_live_entries_counterexample:
  "liveSportsDayA \<in> set [liveSportsDayA, liveSportsDayB] \<and>
   title liveSportsDayA = title (hd MOCK_EVENTS) \<and>
   length (titled ''Sports Day'' (mergedEvents [liveSportsDayA, liveSportsDayB])) = 2"
  by (simp add: mergedEvents_def titled_def MOCK_EVENTS_def liveSportsDayA_def liveSportsDayB_def)

text \<open>
  C1 (amended). For every fetched snapshot the merged list is the seed events whose
  title is the title of no fetched event, in seed order, followed by all fetched events
  in store order. When a seed event and a fetched event share a title, the merged
  entries with that title are exactly the fetched entries with that title (no seed copy
  remains); there is exactly one such entry when the snapshot holds exactly one event
  with that title.
\<close>

theorem C1_merge_seed_then_live:
  "mergedEvents fetched =
     filter (\<lambda>m. title m \<notin> title ` set fetched) MOCK_EVENTS @ fetched
   \<and> (\<forall>m \<in> set MOCK_EVENTS. \<forall>f \<in> set fetched. title f = title m \<longrightarrow>
        titled (title m) (mergedEvents fetched) = titled (title m) fetched
        \<and> (titled (title m) fetched = [f] \<longrightarrow> titled (title m) (mergedEvents fetched) = [f]))"
proof -
  have eq: "(\<lambda>m. \<not> list_ex (\<lambda>f. title f = title m) fetched) = (\<lambda>m. title m \<notin> title ` set fetched)"
    by (rule ext) (force simp: list_ex_iff)
  have shape: "mergedEvents fetched =
      filter (\<lambda>m. title m \<notin> title ` set fetched) MOCK_EVENTS @ fetched"
    by (simp add: mergedEvents_def eq)
  have live: "titled (title m) (mergedEvents fetched) = titled (title m) fetched"
    if "f \<in> set fetched" "title f = title m" for m :: event and f :: event
  proof -
    from that have "title m \<in> title ` set fetched" by (metis imageI)
    then show ?thesis
      by (simp add: mergedEvents_def titled_append titled_seed_suppressed)
  qed
  show ?thesis
  proof (intro conjI ballI impI)
    show "mergedEvents fetched =
      filter (\<lambda>m. title m \<notin> title ` set fetched) MOCK_EVENTS @ fetched"
      by (rule shape)
  next
    fix m f :: event
    assume "f \<in> set fetched" "title f = title m"
    then show "titled (title m) (mergedEvents fetched) = titled (title m) fetched"
      by (rule live)
  next
    fix m f :: event
    assume "f \<in> set fetched" "title f = title m" "titled (title m) fetched = [f]"
    then show "titled (title m) (mergedEvents fetched) = [f]"
      using live [of f m] by simp
  qed
qed

theorem C1_merge_seed_then_live_witness:
  "hd MOCK_EVENTS \<in> set MOCK_EVENTS \<and> liveSportsDayA \<in> set [liveSportsDayA]
   \<and> title liveSportsDayA = title (hd MOCK_EVENTS)
   \<and> titled (title (hd MOCK_EVENTS)) [liveSportsDayA] = [liveSportsDayA]
   \<and> titled (title (hd MOCK_EVENTS)) (mergedEvents [liveSportsDayA]) = [liveSportsDayA]
   \<and> map id_ev (mergedEvents [liveSportsDayA]) = [''2'', ''3'', ''4'', ''5'', ''docA'']"
proof -
  have m: "hd MOCK_EVENTS \<in> set MOCK_EVENTS" by (simp add: MOCK_EVENTS_def)
  have f: "liveSportsDayA \<in> set [liveSportsDayA]" by simp
  have t: "title liveSportsDayA = title (hd MOCK_EVENTS)"
    by (simp add: MOCK_EVENTS_def liveSportsDayA_def)
  have one: "titled (title (hd MOCK_EVENTS)) [liveSportsDayA] = [liveSportsDayA]"
    by (simp add: titled_def MOCK_EVENTS_def liveSportsDayA_def)
  from C1_merge_seed_then_live [of "[liveSportsDayA]"] m f t one
  have "titled (title (hd MOCK_EVENTS)) (mergedEvents [liveSportsDayA]) = [liveSportsDayA]"
    by blast
  moreover have "map id_ev (mergedEvents [liveSportsDayA]) = [''2'', ''3'', ''4'', ''5'', ''docA'']"
    by (simp add: mergedEvents_def MOCK_EVENTS_def liveSportsDayA_def)
  ultimately show ?thesis using m f t one by simp
qed

section \<open>The retry wrapper on a failing operation\<close>

text \<open>
  C2. With \<^verbatim>\<open>maxRetries = 3\<close> and an operation whose three attempts fail, the wrapper
  calls the operation exactly three times, waits 1000 ms after the first failure and
  2000 ms after the second, nothing before the first call and nothing after the third,
  and throws the error of the third attempt as it is.
\<close>

theorem C2_retry_three_attempts:
  assumes "fn s0 = (Inl e1, s1)" and "fn s1 = (Inl e2, s2)" and "fn s2 = (Inl e3, s3)"
  shows "withRetry fn 3 s0 =
           (Thrown e3, s3, [Invoked, Delayed 1000, Invoked, Delayed 2000, Invoked])"
  using assms by (simp add: withRetry_def withRetry_loop.simps)

theorem C2_retry_three_attempts_witness:
  "alwaysFailing 0 = (Inl 0, 1) \<and> alwaysFailing 1 = (Inl 1, 2) \<and> alwaysFailing 2 = (Inl 2, 3)
   \<and> withRetry alwaysFailing 3 0 =
        (Thrown 2, 3, [Invoked, Delayed 1000, Invoked, Delayed 2000, Invoked])"
proof -
  have a: "alwaysFailing 0 = (Inl 0, 1)" by (simp add: alwaysFailing_def)
  have b: "alwaysFailing 1 = (Inl 1, 2)" by (simp add: alwaysFailing_def)
  have c: "alwaysFailing 2 = (Inl 2, 3)" by (simp add: alwaysFailing_def)
  from C2_retry_three_attempts [OF a b c] a b c show ?thesis by simp
qed

section \<open>Publishing scores\<close>

lemma withRetry_setDoc:
  assumes "succeedsWithin 3 (faults fs)"
  shows "\<exists>tr. withRetry (setDoc k v) 3 fs =
           (Returned (),
            fs\<lparr>scoresCollection := setDoc_docs k v (scoresCollection fs),
               faults := faultsAfter (faults fs)\<rparr>, tr)"
proof (cases "faults fs")
  case Nil
  then show ?thesis by (simp add: withRetry_def withRetry_loop.simps setDoc_def)
next
  case (Cons f1 r1)
  show ?thesis
  proof (cases f1)
    case None
    with Cons show ?thesis by (simp add: withRetry_def withRetry_loop.simps setDoc_def)
  next
    case (Some e1)
    note s1 = this
    show ?thesis
    proof (cases r1)
      case Nil
      with Cons s1 show ?thesis by (simp add: withRetry_def withRetry_loop.simps setDoc_def)
    next
      case (Cons f2 r2)
      note c2 = this
      show ?thesis
      proof (cases f2)
        case None
        with \<open>faults fs = f1 # r1\<close> s1 c2 show ?thesis
          by (simp add: withRetry_def withRetry_loop.simps setDoc_def)
      next
        case (Some e2)
        note s2 = this
        show ?thesis
        proof (cases r2)
          case Nil
          with \<open>faults fs = f1 # r1\<close> s1 c2 s2 show ?thesis
            by (simp add: withRetry_def withRetry_loop.simps setDoc_def)
        next
          case (Cons f3 r3)
          with \<open>faults fs = f1 # r1\<close> s1 c2 s2 assms show ?thesis
            by (cases f3) (simp_all add: withRetry_def withRetry_loop.simps setDoc_def numeral_3_eq_3)
        qed
      qed
    qed
  qed
qed

lemma docsAt_setDoc_same:
  "distinct (map fst kvs) \<Longrightarrow> docsAt k (setDoc_docs k v kvs) = [v]"
proof (induction kvs)
  case Nil
  then show ?case by (simp add: docsAt_def)
next
  case (Cons kv kvs)
  obtain k' v' where kv: "kv = (k', v')" by (cases kv)
  show ?case
  proof (cases "k' = k")
    case True
    with Cons.prems kv have "filter (\<lambda>kv. fst kv = k) kvs = []"
      by (auto simp: filter_empty_conv)
    with True kv show ?thesis by (simp add: docsAt_def)
  next
    case False
    with Cons kv show ?thesis by (simp add: docsAt_def)
  qed
qed

lemma docsAt_setDoc_other:
  "k' \<noteq> k \<Longrightarrow> docsAt k' (setDoc_docs k v kvs) = docsAt k' kvs"
  by (induction kvs) (auto simp: docsAt_def)

lemma keys_setDoc:
  "map fst (setDoc_docs k v kvs) =
     (if k \<in> set (map fst kvs) then map fst kvs else map fst kvs @ [k])"
  by (induction kvs) (force+)

lemma distinct_setDoc:
  "distinct (map fst kvs) \<Longrightarrow> distinct (map fst (setDoc_docs k v kvs))"
  by (simp add: keys_setDoc)

lemma handleSubmit_scores_store:
  assumes "selectedEventId form \<noteq> []" and "succeedsWithin 3 (faults fs)"
  shows "\<exists>t. scoresCollection (snd (handleSubmit_scores evs uid now form fs)) =
           setDoc_docs (selectedEventId form)
             \<lparr>eventId = selectedEventId form, eventTitle = t,
              results = filter (\<lambda>s. \<not> (score s = [] \<and> rank s = [])) (scoreData form),
              publishedAt = now, teacherId = uid\<rparr>
             (scoresCollection fs)"
proof -
  define t where "t = (case find (\<lambda>e. id_ev e = selectedEventId form) evs of
                 Some e \<Rightarrow> if title e = [] then ''Unknown Event'' else title e
               | None \<Rightarrow> ''Unknown Event'')"
  define p where "p = \<lparr>eventId = selectedEventId form, eventTitle = t,
              results = filter (\<lambda>s. score s \<noteq> [] \<or> rank s \<noteq> []) (scoreData form),
              publishedAt = now, teacherId = uid\<rparr>"
  from withRetry_setDoc [OF assms(2), of "selectedEventId form" p]
  obtain tr where w: "withRetry (setDoc (selectedEventId form) p) 3 fs =
           (Returned (),
            fs\<lparr>scoresCollection := setDoc_docs (selectedEventId form) p (scoresCollection fs),
               faults := faultsAfter (faults fs)\<rparr>, tr)" by blast
  have "scoresCollection (snd (handleSubmit_scores evs uid now form fs)) =
          setDoc_docs (selectedEventId form) p (scoresCollection fs)"
    using assms(1) w unfolding handleSubmit_scores_def Let_def t_def [symmetric] p_def [symmetric]
    by simp
  moreover have "(\<lambda>s. score s \<noteq> [] \<or> rank s \<noteq> []) = (\<lambda>s::result_entry. \<not> (score s = [] \<and> rank s = []))"
    by (rule ext) simp
  ultimately show ?thesis unfolding p_def by auto
qed


text \<open>
  C8. A submission with an event selected that gets through to the store within the
  three attempts leaves exactly one document under the key of the selected event id,
  with that event id, the time of the submission and, as results, the rows of the form
  without those whose score and rank are both empty. A second such submission for the
  same event again leaves exactly one document under that key, now with the results and
  time of the second; the documents under other keys are as before.
\<close>

theorem C8_publish_scores_upsert:
  assumes sel: "selectedEventId form1 \<noteq> []" "selectedEventId form2 = selectedEventId form1"
    and keys: "distinct (map fst (scoresCollection fs0))"
    and fs1: "fs1 = snd (handleSubmit_scores evs1 uid1 now1 form1 fs0)"
    and fs2: "fs2 = snd (handleSubmit_scores evs2 uid2 now2 form2 fs1)"
    and ok: "succeedsWithin 3 (faults fs0)" "succeedsWithin 3 (faults fs1)"
  shows "(\<exists>p. docsAt (selectedEventId form1) (scoresCollection fs1) = [p]
            \<and> eventId p = selectedEventId form1 \<and> publishedAt p = now1
            \<and> results p = filter (\<lambda>s. \<not> (score s = [] \<and> rank s = [])) (scoreData form1))
       \<and> (\<exists>p. docsAt (selectedEventId form1) (scoresCollection fs2) = [p]
            \<and> eventId p = selectedEventId form1 \<and> publishedAt p = now2
            \<and> results p = filter (\<lambda>s. \<not> (score s = [] \<and> rank s = [])) (scoreData form2))
       \<and> (\<forall>k. k \<noteq> selectedEventId form1 \<longrightarrow>
             docsAt k (scoresCollection fs2) = docsAt k (scoresCollection fs0))"
proof -
  let ?k = "selectedEventId form1"
  from handleSubmit_scores_store [OF sel(1) ok(1), of evs1 uid1 now1] fs1
  obtain t1 where c1: "scoresCollection fs1 =
      setDoc_docs ?k \<lparr>eventId = ?k, eventTitle = t1,
              results = filter (\<lambda>s. \<not> (score s = [] \<and> rank s = [])) (scoreData form1),
              publishedAt = now1, teacherId = uid1\<rparr> (scoresCollection fs0)"
    by auto
  from sel have sel2: "selectedEventId form2 \<noteq> []" by simp
  from handleSubmit_scores_store [OF sel2 ok(2), of evs2 uid2 now2] fs2 sel(2)
  obtain t2 where c2: "scoresCollection fs2 =
      setDoc_docs ?k \<lparr>eventId = ?k, eventTitle = t2,
              results = filter (\<lambda>s. \<not> (score s = [] \<and> rank s = [])) (scoreData form2),
              publishedAt = now2, teacherId = uid2\<rparr> (scoresCollection fs1)"
    by auto
  have d1: "distinct (map fst (scoresCollection fs1))"
    unfolding c1 using keys by (rule distinct_setDoc)
  have first: "\<exists>p. docsAt ?k (scoresCollection fs1) = [p]
            \<and> eventId p = ?k \<and> publishedAt p = now1
            \<and> results p = filter (\<lambda>s. \<not> (score s = [] \<and> rank s = [])) (scoreData form1)"
    unfolding c1 by (simp add: docsAt_setDoc_same [OF keys])
  have second: "\<exists>p. docsAt ?k (scoresCollection fs2) = [p]
            \<and> eventId p = ?k \<and> publishedAt p = now2
            \<and> results p = filter (\<lambda>s. \<not> (score s = [] \<and> rank s = [])) (scoreData form2)"
    unfolding c2 by (simp add: docsAt_setDoc_same [OF d1])
  have others: "docsAt k (scoresCollection fs2) = docsAt k (scoresCollection fs0)" if "k \<noteq> ?k" for k
    unfolding c2 c1 using that by (simp add: docsAt_setDoc_other)
  from first second others show ?thesis by blast
qed

lemma store1_value:
  "store1 = \<lparr>scoresCollection =
      [(''1'', \<lparr>eventId = ''1'', eventTitle = ''Sports Day'',
         results = [\<lparr>studentId = ''student-A'', studentName = ''Alfie B.'', score = ''9.5s'', rank = []\<rparr>],
         publishedAt = ''2025-10-15T10:00:00.000Z'', teacherId = Some ''uid-1''\<rparr>)],
     faults = []\<rparr>"
  by (simp add: store1_def store0_def publishForm1_def handleSubmit_scores_def MOCK_EVENTS_def
        initialScores_def handleScoreChange_score_def withRetry_def withRetry_loop.simps setDoc_def)

lemma store2_value:
  "store2 = \<lparr>scoresCollection =
      [(''1'', \<lparr>eventId = ''1'', eventTitle = ''Sports Day'',
         results = [\<lparr>studentId = ''student-B'', studentName = ''Betty C.'', score = [], rank = ''1st''\<rparr>],
         publishedAt = ''2025-10-15T11:00:00.000Z'', teacherId = Some ''uid-1''\<rparr>)],
     faults = []\<rparr>"
  unfolding store2_def store1_value
  by (simp add: publishForm2_def handleSubmit_scores_def MOCK_EVENTS_def
        initialScores_def handleScoreChange_rank_def withRetry_def withRetry_loop.simps setDoc_def)

theorem C8_publish_scores_upsert_witness:
  "selectedEventId publishForm1 \<noteq> [] \<and> selectedEventId publishForm2 = selectedEventId publishForm1
   \<and> distinct (map fst (scoresCollection store0))
   \<and> succeedsWithin 3 (faults store0) \<and> succeedsWithin 3 (faults store1)
   \<and> length (docsAt ''1'' (scoresCollection store1)) = 1
   \<and> map publishedAt (docsAt ''1'' (scoresCollection store2)) = [''2025-10-15T11:00:00.000Z'']
   \<and> map results (docsAt ''1'' (scoresCollection store2)) =
        [filter (\<lambda>s. \<not> (score s = [] \<and> rank s = [])) (scoreData publishForm2)]
   \<and> docsAt ''2'' (scoresCollection store2) = docsAt ''2'' (scoresCollection store0)"
proof -
  have h1: "selectedEventId publishForm1 \<noteq> []" by (simp add: publishForm1_def)
  have h2: "selectedEventId publishForm2 = selectedEventId publishForm1"
    by (simp add: publishForm1_def publishForm2_def)
  have h3: "distinct (map fst (scoresCollection store0))" by (simp add: store0_def)
  have h4: "succeedsWithin 3 (faults store0)" by (simp add: store0_def numeral_3_eq_3)
  have h5: "succeedsWithin 3 (faults store1)" by (simp add: store1_value numeral_3_eq_3)
  have k: "selectedEventId publishForm1 = ''1''" by (simp add: publishForm1_def)
  from C8_publish_scores_upsert [OF h1 h2 h3 store1_def store2_def h4 h5]
  show ?thesis using h1 h2 h3 h4 h5 unfolding k by auto
qed

section \<open>The login check\<close>

text \<open>
  C10. The login succeeds, calling \<^verbatim>\<open>onLogin\<close> with the target role (which sets the
  role and shows that role's dashboard), exactly when the username, trimmed and then
  lowercased, is the fixed username of that role and the password, trimmed only, is the
  fixed password. Otherwise the inline error message is set and the application state,
  the role with it, stays as it was.
\<close>

theorem C10_login_check:
  "(toLowerCase (trim (username_input form)) = (case target of Teacher \<Rightarrow> ''teacher'' | Student \<Rightarrow> ''student'')
      \<and> trim (password_input form) = ''pass''
    \<longrightarrow> snd (handleSubmit_login target form st) = handleLogin target st
        \<and> userRole (snd (handleSubmit_login target form st)) = Some target
        \<and> view (snd (handleSubmit_login target form st)) =
            (case target of Teacher \<Rightarrow> TeacherDashboard | Student \<Rightarrow> StudentDashboard)
        \<and> error_login (fst (handleSubmit_login target form st)) = [])
   \<and> (\<not> (toLowerCase (trim (username_input form)) = (case target of Teacher \<Rightarrow> ''teacher'' | Student \<Rightarrow> ''student'')
          \<and> trim (password_input form) = ''pass'')
    \<longrightarrow> snd (handleSubmit_login target form st) = st
        \<and> error_login (fst (handleSubmit_login target form st)) = ''Invalid credentials. Please try again.'')"
  by (cases target) (auto simp: handleSubmit_login_def handleLogin_def setView_def Let_def)

theorem C10_login_check_witness:
  "toLowerCase (trim (username_input loginGood)) = ''teacher'' \<and> trim (password_input loginGood) = ''pass''
   \<and> userRole (snd (handleSubmit_login Teacher loginGood (atLogin Teacher))) = Some Teacher
   \<and> view (snd (handleSubmit_login Teacher loginGood (atLogin Teacher))) = TeacherDashboard
   \<and> trim (password_input loginBad) \<noteq> ''pass''
   \<and> snd (handleSubmit_login Teacher loginBad (atLogin Teacher)) = atLogin Teacher
   \<and> userRole (atLogin Teacher) = None
   \<and> error_login (fst (handleSubmit_login Teacher loginBad (atLogin Teacher))) = ''Invalid credentials. Please try again.''"
proof -
  have g1: "toLowerCase (trim (username_input loginGood)) = ''teacher''"
    by code_simp
  have g2: "trim (password_input loginGood) = ''pass''"
    by code_simp
  have b: "trim (password_input loginBad) \<noteq> ''pass''"
    by code_simp
  have r: "userRole (atLogin Teacher) = None"
    by (simp add: atLogin_def readyState_def authObserver_def online_def handleRoleSelect_def setView_def initializeFirebase_def initialState_def)
  from C10_login_check [of loginGood Teacher "atLogin Teacher"] g1 g2
  have good: "userRole (snd (handleSubmit_login Teacher loginGood (atLogin Teacher))) = Some Teacher
     \<and> view (snd (handleSubmit_login Teacher loginGood (atLogin Teacher))) = TeacherDashboard"
    by force
  from C10_login_check [of loginBad Teacher "atLogin Teacher"] b
  have bad: "snd (handleSubmit_login Teacher loginBad (atLogin Teacher)) = atLogin Teacher
     \<and> error_login (fst (handleSubmit_login Teacher loginBad (atLogin Teacher))) = ''Invalid credentials. Please try again.''"
    by blast
  from g1 g2 b r good bad show ?thesis by simp
qed

section \<open>The access gate of \<^verbatim>\<open>renderView\<close>\<close>

text \<open>
  C3 (as stated, refuted). A logged-in student whose view is set to \<^verbatim>\<open>AddEvent\<close> is not
  sent back to the student dashboard: the view stays \<^verbatim>\<open>AddEvent\<close> and the paragraph
  "Access Denied" is rendered.
\<close>

theorem C3_student_not_redirected_counterexample:
  "userRole studentAtDashboard = Some Student
   \<and> view studentAtDashboard = StudentDashboard
   \<and> view (setView AddEvent studentAtDashboard) = AddEvent
   \<and> renderView (setView AddEvent studentAtDashboard) = AccessDenied
   \<and> renderView (setView AddEvent studentAtDashboard) \<noteq> StudentDashboardCard"
  by (simp add: studentAtDashboard_def atLogin_def readyState_def authObserver_def online_def handleLogin_def handleRoleSelect_def
        setView_def initializeFirebase_def initialState_def renderView_def)

text \<open>
  C3 (amended). A transition sets the view to its target whatever the role, and changes
  neither the role nor the error state. With the session ready, the store handle set and
  no error, the target is rendered as "Access Denied" exactly when it is \<^verbatim>\<open>AddEvent\<close> or
  \<^verbatim>\<open>AddScores\<close> and the role is not Teacher; a Teacher gets the two forms, and every
  other view is rendered for every role, each as its own component with the props that
  \<^verbatim>\<open>renderView\<close> passes to it.
\<close>

theorem C3_access_gate:
  assumes "isAuthReady st" and "db st" and "\<not> truthy (error st)"
  shows "view (setView v st) = v
     \<and> error (setView v st) = error st
     \<and> userRole (setView v st) = userRole st
     \<and> (renderView (setView v st) = AccessDenied
          \<longleftrightarrow> (v = AddEvent \<or> v = AddScores) \<and> userRole st \<noteq> Some Teacher)
     \<and> (userRole st = Some Teacher \<longrightarrow>
          renderView (setView AddEvent st) = AddEventView (Some Teacher)
          \<and> renderView (setView AddScores st) = AddScoresView (events st) (userId st))
     \<and> (userRole st \<noteq> Some Teacher \<longrightarrow>
          renderView (setView AddEvent st) = AccessDenied
          \<and> renderView (setView AddScores st) = AccessDenied)
     \<and> renderView (setView InitialRoleChoice st) = InitialRoleChoiceView
     \<and> renderView (setView Login st) = LoginView (targetRole st)
     \<and> renderView (setView TeacherDashboard st) = TeacherDashboardCard
     \<and> renderView (setView StudentDashboard st) = StudentDashboardCard
     \<and> renderView (setView EventCalendar st) = EventCalendarView (events st) (userRole st)
     \<and> renderView (setView EventDetails st) =
           EventDetailsView (case selectedEvent st of Some sel \<Rightarrow> sel | None \<Rightarrow> events st)
             (userRole st)
     \<and> renderView (setView ViewResults st) =
           ViewResultsView (userRole st) (scores st) (events st)
     \<and> renderView (setView NoticeBoard st) =
           NoticeBoardView (notices st) (userRole st) (userId st)
     \<and> renderView (setView StudentProfile st) = StudentProfileView (userId st)"
proof -
  have gate: "view (setView v st) = v
     \<and> error (setView v st) = error st
     \<and> userRole (setView v st) = userRole st
     \<and> (renderView (setView v st) = AccessDenied
          \<longleftrightarrow> (v = AddEvent \<or> v = AddScores) \<and> userRole st \<noteq> Some Teacher)"
    using assms by (cases v) (auto simp: setView_def renderView_def)
  have forms: "userRole st = Some Teacher \<longrightarrow>
          renderView (setView AddEvent st) = AddEventView (Some Teacher)
          \<and> renderView (setView AddScores st) = AddScoresView (events st) (userId st)"
    using assms by (simp add: setView_def renderView_def)
  have denied: "userRole st \<noteq> Some Teacher \<longrightarrow>
          renderView (setView AddEvent st) = AccessDenied
          \<and> renderView (setView AddScores st) = AccessDenied"
    using assms by (simp add: setView_def renderView_def)
  have others: "renderView (setView InitialRoleChoice st) = InitialRoleChoiceView
     \<and> renderView (setView Login st) = LoginView (targetRole st)
     \<and> renderView (setView TeacherDashboard st) = TeacherDashboardCard
     \<and> renderView (setView StudentDashboard st) = StudentDashboardCard
     \<and> renderView (setView EventCalendar st) = EventCalendarView (events st) (userRole st)
     \<and> renderView (setView EventDetails st) =
           EventDetailsView (case selectedEvent st of Some sel \<Rightarrow> sel | None \<Rightarrow> events st)
             (userRole st)
     \<and> renderView (setView ViewResults st) =
           ViewResultsView (userRole st) (scores st) (events st)
     \<and> renderView (setView NoticeBoard st) =
           NoticeBoardView (notices st) (userRole st) (userId st)
     \<and> renderView (setView StudentProfile st) = StudentProfileView (userId st)"
    using assms by (simp add: setView_def renderView_def split: option.split)
  from gate forms denied others show ?thesis by blast
qed

theorem C3_access_gate_witness:
  "isAuthReady studentAtDashboard \<and> db studentAtDashboard \<and> \<not> truthy (error studentAtDashboard)
   \<and> userRole studentAtDashboard \<noteq> Some Teacher
   \<and> view (setView AddScores studentAtDashboard) = AddScores
   \<and> renderView (setView AddScores studentAtDashboard) = AccessDenied
   \<and> renderView (setView NoticeBoard studentAtDashboard) \<noteq> AccessDenied
   \<and> renderView (setView NoticeBoard studentAtDashboard) =
         NoticeBoardView [] (Some Student) (Some ''uid-1'')
   \<and> renderView (setView ViewResults studentAtDashboard) =
         ViewResultsView (Some Student) [] MOCK_EVENTS
   \<and> isAuthReady teacherAtDashboard \<and> db teacherAtDashboard \<and> \<not> truthy (error teacherAtDashboard)
   \<and> userRole teacherAtDashboard = Some Teacher
   \<and> renderView (setView AddEvent teacherAtDashboard) = AddEventView (Some Teacher)"
proof -
  have s: "isAuthReady studentAtDashboard" "db studentAtDashboard"
      "\<not> truthy (error studentAtDashboard)" "userRole studentAtDashboard \<noteq> Some Teacher"
    by (simp_all add: studentAtDashboard_def atLogin_def readyState_def authObserver_def online_def handleLogin_def handleRoleSelect_def
        setView_def initializeFirebase_def initialState_def)
  have t: "isAuthReady teacherAtDashboard" "db teacherAtDashboard"
      "\<not> truthy (error teacherAtDashboard)" "userRole teacherAtDashboard = Some Teacher"
    by (simp_all add: teacherAtDashboard_def atLogin_def readyState_def authObserver_def online_def handleLogin_def handleRoleSelect_def
        setView_def initializeFirebase_def initialState_def)
  from C3_access_gate [OF s(1-3), of AddScores] s(4)
  have a: "view (setView AddScores studentAtDashboard) = AddScores
     \<and> renderView (setView AddScores studentAtDashboard) = AccessDenied" by blast
  from C3_access_gate [OF s(1-3), of NoticeBoard]
  have b: "renderView (setView NoticeBoard studentAtDashboard) \<noteq> AccessDenied" by blast
  from C3_access_gate [OF t(1-3), of AddEvent] t(4)
  have c: "renderView (setView AddEvent teacherAtDashboard) = AddEventView (Some Teacher)" by blast
  have v: "notices studentAtDashboard = []" "scores studentAtDashboard = []"
      "events studentAtDashboard = MOCK_EVENTS" "userRole studentAtDashboard = Some Student"
      "userId studentAtDashboard = Some ''uid-1''"
    by (simp_all add: studentAtDashboard_def atLogin_def readyState_def authObserver_def
        online_def handleLogin_def handleRoleSelect_def setView_def initializeFirebase_def
        initialState_def)
  from C3_access_gate [OF s(1-3), of NoticeBoard]
  have d: "renderView (setView NoticeBoard studentAtDashboard) =
         NoticeBoardView (notices studentAtDashboard) (userRole studentAtDashboard)
           (userId studentAtDashboard)
     \<and> renderView (setView ViewResults studentAtDashboard) =
         ViewResultsView (userRole studentAtDashboard) (scores studentAtDashboard)
           (events studentAtDashboard)" by blast
  from s t a b c d show ?thesis by (simp add: v)
qed

section \<open>Logout\<close>




section \<open>Readiness of the session\<close>

text \<open>
  C5 (as stated, refuted). With no user and a sign-in that is rejected, anonymous or by
  custom token, the callback ends with that error and the session is not marked ready.
\<close>

theorem C5_failed_sign_in_not_ready_counterexample:
  "isAuthReady (initializeFirebase initialState) = False
   \<and> fst (authObserver offline None None (initializeFirebase initialState))
        = Some ''auth/network-request-failed''
   \<and> isAuthReady (snd (authObserver offline None None (initializeFirebase initialState))) = False
   \<and> isAuthReady (snd (authObserver offline (Some ''token'') None (initializeFirebase initialState)))
        = False"
  by (simp add: authObserver_def offline_def initializeFirebase_def initialState_def)

text \<open>
  C5 (amended). A run of the observer callback marks the session ready when a user is
  present or the sign-in it attempts (by custom token when one is configured,
  anonymously otherwise) succeeds. When that sign-in is rejected, the callback ends with
  the rejection and leaves the state, \<^verbatim>\<open>isAuthReady\<close> included, as it was.
\<close>

theorem C5_ready_after_successful_branch:
  "(user \<noteq> None \<or> (if truthy tok then signInWithCustomToken idp (the tok) else signInAnonymously idp) = None
      \<longrightarrow> fst (authObserver idp tok user st) = None
          \<and> isAuthReady (snd (authObserver idp tok user st)))
   \<and> (user = None \<and> (if truthy tok then signInWithCustomToken idp (the tok) else signInAnonymously idp) \<noteq> None
      \<longrightarrow> fst (authObserver idp tok user st)
            = (if truthy tok then signInWithCustomToken idp (the tok) else signInAnonymously idp)
          \<and> snd (authObserver idp tok user st) = st)"
  by (auto simp: authObserver_def split: option.splits)

theorem C5_ready_after_successful_branch_witness:
  "(if truthy None then signInWithCustomToken online (the None) else signInAnonymously online) = None
   \<and> isAuthReady (snd (authObserver online None None (initializeFirebase initialState)))
   \<and> (None :: string option) = None
   \<and> (if truthy None then signInWithCustomToken offline (the None) else signInAnonymously offline) \<noteq> None
   \<and> snd (authObserver offline None None (initializeFirebase initialState)) = initializeFirebase initialState
   \<and> \<not> isAuthReady (initializeFirebase initialState)"
proof -
  have ok: "(if truthy None then signInWithCustomToken online (the None) else signInAnonymously online) = None"
    by (simp add: online_def)
  have ko: "(if truthy None then signInWithCustomToken offline (the None) else signInAnonymously offline) \<noteq> None"
    by (simp add: offline_def)
  from C5_ready_after_successful_branch [of None None online "initializeFirebase initialState"] ok
  have a: "isAuthReady (snd (authObserver online None None (initializeFirebase initialState)))"
    by blast
  from C5_ready_after_successful_branch [of None None offline "initializeFirebase initialState"] ko
  have b: "snd (authObserver offline None None (initializeFirebase initialState)) = initializeFirebase initialState"
    by blast
  have c: "\<not> isAuthReady (initializeFirebase initialState)"
    by (simp add: initializeFirebase_def initialState_def)
  from ok ko a b c show ?thesis by simp
qed

section \<open>Listener errors\<close>

text \<open>
  C6 (as stated, refuted). After the error callback of the events listener, the notice
  board that was shown is replaced by the error message, and a later notices snapshot
  does not bring it back.
\<close>

theorem C6_error_hides_other_collections_counterexample:
  "renderView studentAtNotices = NoticeBoardView [notice1] (Some Student) (Some ''uid-1'')
   \<and> renderView (onEventsError studentAtNotices) = ErrorMessage ''Could not load events.''
   \<and> renderView (onNoticesSnapshot [notice1] (onEventsError studentAtNotices))
        = ErrorMessage ''Could not load events.''"
  by (simp add: studentAtNotices_def onNoticesSnapshot_def onEventsError_def setView_def
        studentAtDashboard_def atLogin_def readyState_def authObserver_def online_def handleLogin_def handleRoleSelect_def
        initializeFirebase_def initialState_def renderView_def)

text \<open>
  C6 (amended). The error callback of a listener sets the message of its collection and
  changes none of the three cached collections; the two other listeners still replace
  their collections on a snapshot. As long as the message is set, \<^verbatim>\<open>renderView\<close>
  returns the message for every view, so no collection is shown.
\<close>

theorem C6_listener_error:
  "renderView (onEventsError st) = ErrorMessage ''Could not load events.''
   \<and> renderView (onNoticesError st) = ErrorMessage ''Could not load notices.''
   \<and> renderView (onScoresError st) = ErrorMessage ''Could not load scores.''
   \<and> events (onEventsError st) = events st
   \<and> notices (onEventsError st) = notices st \<and> scores (onEventsError st) = scores st
   \<and> events (onNoticesError st) = events st
   \<and> notices (onNoticesError st) = notices st \<and> scores (onNoticesError st) = scores st
   \<and> events (onScoresError st) = events st
   \<and> notices (onScoresError st) = notices st \<and> scores (onScoresError st) = scores st
   \<and> notices (onNoticesSnapshot ns (onEventsError st)) = ns
   \<and> scores (onScoresSnapshot ss (onEventsError st)) = ss
   \<and> events (onEventsSnapshot es (onNoticesError st)) = mergedEvents es
   \<and> scores (onScoresSnapshot ss (onNoticesError st)) = ss
   \<and> events (onEventsSnapshot es (onScoresError st)) = mergedEvents es
   \<and> notices (onNoticesSnapshot ns (onScoresError st)) = ns
   \<and> renderView (onNoticesSnapshot ns (onEventsError st)) = ErrorMessage ''Could not load events.''
   \<and> renderView (onScoresSnapshot ss (onEventsError st)) = ErrorMessage ''Could not load events.''
   \<and> renderView (setView v (onEventsError st)) = ErrorMessage ''Could not load events.''"
  by (simp add: onEventsError_def onNoticesError_def onScoresError_def onEventsSnapshot_def
        onNoticesSnapshot_def onScoresSnapshot_def setView_def renderView_def)

section \<open>From the calendar to the event details\<close>

lemma studentAtCalendar_value:
  "studentAtCalendar =
     \<lparr>db = True, isAuthReady = True, userRole = Some Student, targetRole = None, userId = Some ''uid-1'',
      view = EventCalendar, selectedEvent = None,
      events = MOCK_EVENTS, notices = [], scores = [], error = None\<rparr>"
  by (simp add: studentAtCalendar_def setView_def studentAtDashboard_def
        atLogin_def readyState_def authObserver_def online_def handleLogin_def handleRoleSelect_def initializeFirebase_def initialState_def)

text \<open>
  C7 (the code at a failing input). The calendar displays November 2025 over the seed
  events, in a browser five hours behind UTC. The events dated in November 2025 are the
  seed events 2 and 3, but "Go to Event Details" sets the payload to the seed events 2, 3
  and 4: the Photography Contest of 1 December 2025 is read as 30 November local time.
  The day cells of the same component, which compare date strings, count that event on
  1 December and not in November.
\<close>

theorem C7_month_filter_behind_utc:
  "events studentAtCalendar = MOCK_EVENTS
   \<and> datedIn 2025 11 MOCK_EVENTS = [MOCK_EVENTS ! 1, MOCK_EVENTS ! 2]
   \<and> selectedEvent (goToDetails newYork 10 2025 studentAtCalendar)
        = Some [MOCK_EVENTS ! 1, MOCK_EVENTS ! 2, MOCK_EVENTS ! 3]
   \<and> date (MOCK_EVENTS ! 3) = (2025, 12, 1)
   \<and> getEventsForDay 10 2025 MOCK_EVENTS 1 = 0
   \<and> getEventsForDay 11 2025 MOCK_EVENTS 1 = 1"
  by (simp add: studentAtCalendar_value goToDetails_def setView_def datedIn_def getEventsForDay_def
        MOCK_EVENTS_def getMonth_def getFullYear_def newYork_def)

text \<open>
  In a time zone at or ahead of UTC the payload is exactly the events dated in the
  displayed month.
\<close>

lemma goToDetails_east_of_utc:
  assumes "\<forall>e \<in> set (events st). 0 \<le> utcOffset (date e) \<and> 1 \<le> fst (snd (date e))"
  shows "selectedEvent (goToDetails utcOffset currentMonth currentYear st)
           = Some (datedIn currentYear (currentMonth + 1) (events st))
         \<and> view (goToDetails utcOffset currentMonth currentYear st) = EventDetails"
proof -
  have "filter (\<lambda>e. getMonth utcOffset (date e) = currentMonth
                     \<and> getFullYear utcOffset (date e) = currentYear) (events st)
        = filter (\<lambda>e. fst (date e) = currentYear \<and> fst (snd (date e)) = currentMonth + 1) (events st)"
    using assms
    by (intro filter_cong refl) (auto simp: getMonth_def getFullYear_def split: prod.splits)
  then show ?thesis by (simp add: goToDetails_def setView_def datedIn_def)
qed

section \<open>Rendering and the cached collections\<close>

text \<open>Sorting the seed events by date leaves them as they are.\<close>

lemma sortByDate_seed: "sortByDate MOCK_EVENTS = MOCK_EVENTS"
  unfolding sortByDate_def by (rule sort_key_id_if_sorted) (simp add: MOCK_EVENTS_def)

text \<open>
  C9 (the code at a failing input). The details view rendered without a payload is
  given the cached events collection itself and sorts it in place: the fetched event,
  last in the cached collection before the render, is first in it afterwards.
\<close>

theorem C9_details_view_sorts_cached_events:
  "selectedEvent directDetails = None
   \<and> renderView directDetails = EventDetailsView (events directDetails) (Some Student)
   \<and> map id_ev (events directDetails) = [''1'', ''2'', ''3'', ''4'', ''5'', ''docC'']
   \<and> map id_ev (events (afterRender directDetails)) = [''docC'', ''1'', ''2'', ''3'', ''4'', ''5'']"
  by (simp add: directDetails_def setView_def onEventsSnapshot_def mergedEvents_def MOCK_EVENTS_def
     orientation_def studentAtDashboard_def
        atLogin_def readyState_def authObserver_def online_def handleLogin_def handleRoleSelect_def initializeFirebase_def initialState_def
        renderView_def afterRender_def EventDetailsView_body_def sortByDate_def)

section \<open>The groups of the details view\<close>

lemma keys_pushGrouped:
  "map fst (pushGrouped acc e) =
     (if date e \<in> set (map fst acc) then map fst acc else map fst acc @ [date e])"
  by (induction acc e rule: pushGrouped.induct) auto

lemma lookup_pushGrouped:
  "map_of (pushGrouped acc e) k =
     (if k = date e then Some ((case map_of acc k of None \<Rightarrow> [] | Some es \<Rightarrow> es) @ [e])
      else map_of acc k)"
  by (induction acc e rule: pushGrouped.induct) auto

lemma groupedEvents_snoc: "groupedEvents (xs @ [x]) = pushGrouped (groupedEvents xs) x"
  by (simp add: groupedEvents_def)

lemma keys_groupedEvents:
  "set (map fst (groupedEvents xs)) = date ` set xs \<and> distinct (map fst (groupedEvents xs))"
proof (induction xs rule: rev_induct)
  case Nil
  then show ?case by (simp add: groupedEvents_def)
next
  case (snoc x xs)
  then show ?case by (auto simp: groupedEvents_snoc keys_pushGrouped)
qed

lemma sorted_keys_groupedEvents:
  "sorted (map date xs) \<Longrightarrow> sorted (map fst (groupedEvents xs))"
proof (induction xs rule: rev_induct)
  case Nil
  then show ?case by (simp add: groupedEvents_def)
next
  case (snoc x xs)
  from snoc.prems have s: "sorted (map date xs)" and le: "\<forall>d \<in> date ` set xs. d \<le> date x"
    by (auto simp: sorted_append)
  from keys_groupedEvents [of xs] le
  have "\<forall>k \<in> set (map fst (groupedEvents xs)). k \<le> date x" by auto
  with snoc.IH [OF s] show ?case
    by (auto simp: groupedEvents_snoc keys_pushGrouped sorted_append)
qed

lemma filter_date_none: "d \<notin> date ` set xs \<Longrightarrow> filter (\<lambda>e. date e = d) xs = []"
  by (auto simp: filter_empty_conv)

lemma lookup_groupedEvents:
  "map_of (groupedEvents xs) k =
     (if k \<in> date ` set xs then Some (filter (\<lambda>e. date e = k) xs) else None)"
proof (induction xs rule: rev_induct)
  case Nil
  then show ?case by (simp add: groupedEvents_def)
next
  case (snoc x xs)
  then show ?case
    by (auto simp: groupedEvents_snoc lookup_pushGrouped filter_date_none)
qed

text \<open>
  The details view displays the events it is given grouped by date: the dates appear in
  strictly ascending order, they are the dates of the events given, and each group holds
  the events of its date in the order they were given.
\<close>

lemma EventDetailsView_groups:
  "sorted (map fst (fst (EventDetailsView_body evs)))
   \<and> distinct (map fst (fst (EventDetailsView_body evs)))
   \<and> set (map fst (fst (EventDetailsView_body evs))) = date ` set evs
   \<and> (\<forall>(k, es) \<in> set (fst (EventDetailsView_body evs)). es = filter (\<lambda>e. date e = k) evs)"
proof -
  let ?s = "sortByDate evs"
  have srt: "sorted (map date ?s)" by (simp add: sortByDate_def)
  have a: "sorted (map fst (groupedEvents ?s))" by (rule sorted_keys_groupedEvents [OF srt])
  have b: "distinct (map fst (groupedEvents ?s))" using keys_groupedEvents by blast
  have c: "set (map fst (groupedEvents ?s)) = date ` set evs"
    using keys_groupedEvents [of ?s] by (simp add: sortByDate_def)
  have d: "es = filter (\<lambda>e. date e = k) evs" if "(k, es) \<in> set (groupedEvents ?s)" for k es
  proof -
    from that b have "map_of (groupedEvents ?s) k = Some es" by simp
    then have "es = filter (\<lambda>e. date e = k) ?s"
      by (simp add: lookup_groupedEvents split: if_splits)
    then show ?thesis by (simp add: sortByDate_def sort_key_stable)
  qed
  from a b c d show ?thesis by (auto simp: EventDetailsView_body_def)
qed

text \<open>
  With a payload the details view is given the payload; without one it is given the
  cached events collection.
\<close>

lemma renderView_details_fallback:
  assumes "isAuthReady st" and "\<not> truthy (error st)" and "view st = EventDetails"
  shows "renderView (st\<lparr>selectedEvent := None\<rparr>) = EventDetailsView (events st) (userRole st)
       \<and> renderView (st\<lparr>selectedEvent := Some payload\<rparr>) = EventDetailsView payload (userRole st)"
  using assms by (simp add: renderView_def)


section \<open>The result modal and the cached scores\<close>

text \<open>
  Under a collation that puts "1st" before "2nd", rendering the modal for a publication
  whose rows are stored in the order of the student list reorders the rows of that
  publication in the cached scores collection.
\<close>

lemma resultModal_sorts_cached_results:
  assumes "0 < localeCompare ''2nd'' ''1st''"
  shows "map (\<lambda>p. map studentId (results (snd p))) (scores studentAtResults)
           = [[''student-A'', ''student-B'']]
       \<and> map (\<lambda>p. map studentId (results (snd p)))
             (scores (afterRender_ResultModal localeCompare 0 studentAtResults))
           = [[''student-B'', ''student-A'']]"
  using assms
  by (simp add: studentAtResults_def setView_def onScoresSnapshot_def sportsDayScores_def
        studentAtDashboard_def atLogin_def readyState_def authObserver_def online_def handleLogin_def handleRoleSelect_def
        initializeFirebase_def initialState_def renderView_def afterRender_ResultModal_def
        ResultModal_body_def sortBy_def)

end
